theory Spec2Isabelle
  imports Main "HOL-Library.AList"
begin

section \<open>Python values shared by both modules\<close>

text \<open>
  Exceptions of the Python source are values. \<open>KeyError\<close> carries the missing key
  (a weight label, a category identifier, or the name of a widget class),
  \<open>AttributeError\<close> the attribute that was read from \<open>None\<close>. \<open>ExternalError\<close> is
  whatever a collaborator that is not part of these two modules may raise.
\<close>

datatype error = KeyError string | AttributeError string | ExternalError string

text \<open>
  A Python class, identified by its name and its direct base classes. \<open>issubclass\<close>
  is Python's \<open>issubclass\<close>: a class is a subclass of itself and of every class
  reachable through its bases.
\<close>

datatype pyclass = PyClass (cname: string) (bases: "pyclass list")

fun issubclass :: "pyclass \<Rightarrow> pyclass \<Rightarrow> bool" where
  "issubclass (PyClass n bs) k = (PyClass n bs = k \<or> list_ex (\<lambda>b. issubclass b k) bs)"

section \<open>The models read by the serializers (web.models)\<close>

record ChoosableMeta =
  meta_value :: string

record Choosable =
  pk :: nat
  name :: string
  bg_color :: string
  fg_color :: string
  meta :: "(string \<times> ChoosableMeta) list"

record Session =
  session_id :: nat
  result_id :: string
  language_code :: string

text \<open>
  A selection refers to its session and facette by primary key; the session
  reference may be null, which is what \<open>filter(session=None)\<close> selects.
\<close>

record FacetteSelection =
  session :: "nat option"
  facette :: nat
  weight :: string

text \<open>
  Modelled from the spec: the field \<open>choosables\<close> of FacetteAssignment, the target
  set of an assignment ("a mapping from a set of facettes to an assignment category
  ... and to one or more target Choosables"). The class is declared in web.models;
  the serializers below read only \<open>facettes\<close> and \<open>assignment_type\<close>.
\<close>

record FacetteAssignment =
  facettes :: "nat list"
  choosables :: "nat list"
  assignment_type :: string

text \<open>
  A widget instance: its runtime class and the columns the serializers read.
  \<open>template\<close> is read for HTML widgets only and \<open>topic\<close> for facette widgets only.
\<close>

record Widget =
  wclass :: pyclass
  widget_id :: nat
  row :: nat
  col :: nat
  width :: nat
  pages :: "nat list"
  widget_type :: string
  template :: string
  topic :: nat

record Page =
  page_id :: nat
  widget_list :: "Widget list"

text \<open>The tables, one list of rows per model manager.\<close>

record database =
  Choosable_objects :: "Choosable list"
  Session_objects :: "Session list"
  FacetteSelection_objects :: "FacetteSelection list"
  FacetteAssignment_objects :: "FacetteAssignment list"
  Page_objects :: "Page list"

text \<open>
  What the two modules import without defining: \<open>WEIGHT_MAP\<close> and
  \<open>LANGUAGE_CODES\<close> of kuusi.settings, the \<open>choices\<close> and \<open>get_score\<close> of
  \<open>FacetteAssignment.AssignmentType\<close>, the translation lookup \<open>obj.__(field, lang)\<close>,
  and the data of the FacetteSerializer and the SessionVersionSerializer (given
  the session key of the context). They are parameters of everything below.
\<close>

record environment =
  WEIGHT_MAP :: "string \<rightharpoonup> int"
  LANGUAGE_CODES :: "string list"
  choices :: "(string \<times> string) list"
  get_score :: "(string \<times> int) list \<Rightarrow> error + int"
  translate :: "Choosable \<Rightarrow> string \<Rightarrow> string \<Rightarrow> string"
  FacetteSerializer_data :: "string \<Rightarrow> nat \<Rightarrow> error + string list"
  SessionVersionSerializer_data :: "string \<Rightarrow> error + string list"

section \<open>ResultListWidgetSerializer.get_choosables: the scoring pass\<close>

text \<open>
  The dict \<open>scores_by_type\<close> is an association list in insertion order;
  \<open>AList.update\<close> overwrites an existing key in place and appends a new one, as a
  Python dict does.
\<close>

type_synonym scores = "(string \<times> int) list"

text \<open>Lines 167-170: one slot per entry of \<open>AssignmentType.choices\<close>, set to 0.\<close>

fun init_scores :: "(string \<times> string) list \<Rightarrow> scores \<Rightarrow> scores" where
  "init_scores [] scores_by_type = scores_by_type"
| "init_scores ((identifier, label) # rest) scores_by_type =
     init_scores rest (AList.update identifier 0 scores_by_type)"

text \<open>Line 180, \<open>scores_by_type[k] += w\<close>: reading a missing key raises KeyError.\<close>

definition add_score :: "scores \<Rightarrow> string \<Rightarrow> int \<Rightarrow> error + scores" where
  "add_score scores_by_type k w =
     (case map_of scores_by_type k of
        None \<Rightarrow> Inl (KeyError k)
      | Some v \<Rightarrow> Inr (AList.update k (v + w) scores_by_type))"

text \<open>Lines 178-180: the loop over the assignments of one selection's facette.\<close>

fun assignments_loop :: "int \<Rightarrow> FacetteAssignment list \<Rightarrow> scores \<Rightarrow> error + scores" where
  "assignments_loop selection_weight_value [] scores_by_type = Inr scores_by_type"
| "assignments_loop selection_weight_value (assignment # rest) scores_by_type =
     (let weighted_score = 1 * selection_weight_value
      in case add_score scores_by_type (assignment_type assignment) weighted_score of
           Inl e \<Rightarrow> Inl e
         | Inr scores_by_type' \<Rightarrow> assignments_loop selection_weight_value rest scores_by_type')"

text \<open>Line 176: \<open>FacetteAssignment.objects.filter(facettes__in=[facette])\<close>.\<close>

definition assignments_of :: "database \<Rightarrow> nat \<Rightarrow> FacetteAssignment list" where
  "assignments_of db f = filter (\<lambda>a. f \<in> set (facettes a)) (FacetteAssignment_objects db)"

text \<open>Lines 172-180: the loop over the selections; the weight lookup may raise.\<close>

fun selections_loop ::
  "environment \<Rightarrow> database \<Rightarrow> FacetteSelection list \<Rightarrow> scores \<Rightarrow> error + scores" where
  "selections_loop env db [] scores_by_type = Inr scores_by_type"
| "selections_loop env db (selection # rest) scores_by_type =
     (let selection_weight_key = weight selection
      in case WEIGHT_MAP env selection_weight_key of
           None \<Rightarrow> Inl (KeyError selection_weight_key)
         | Some selection_weight_value \<Rightarrow>
             (case assignments_loop selection_weight_value
                     (assignments_of db (facette selection)) scores_by_type of
                Inl e \<Rightarrow> Inl e
              | Inr scores_by_type' \<Rightarrow> selections_loop env db rest scores_by_type'))"

text \<open>
  Lines 167-180, the body of the loop over the choosables up to the reduction:
  the score vector of one choosable. The source never reads \<open>choosable\<close> here.
\<close>

definition score_vector ::
  "environment \<Rightarrow> database \<Rightarrow> FacetteSelection list \<Rightarrow> Choosable \<Rightarrow> error + scores" where
  "score_vector env db selections choosable =
     selections_loop env db selections (init_scores (choices env) [])"

text \<open>Lines 166-183: the loop over the choosables, filling the dict \<open>ranking\<close>.\<close>

fun ranking_loop ::
  "environment \<Rightarrow> database \<Rightarrow> FacetteSelection list \<Rightarrow> Choosable list \<Rightarrow> (nat \<rightharpoonup> int)
     \<Rightarrow> error + (nat \<rightharpoonup> int)" where
  "ranking_loop env db selections [] ranking = Inr ranking"
| "ranking_loop env db selections (choosable # rest) ranking =
     (case score_vector env db selections choosable of
        Inl e \<Rightarrow> Inl e
      | Inr scores_by_type \<Rightarrow>
          (case get_score env scores_by_type of
             Inl e \<Rightarrow> Inl e
           | Inr r \<Rightarrow> ranking_loop env db selections rest (ranking(pk choosable \<mapsto> r))))"

text \<open>Line 162: \<open>Session.objects.filter(result_id=...).first()\<close>.\<close>

definition find_session :: "database \<Rightarrow> string \<Rightarrow> Session option" where
  "find_session db session_pk = find (\<lambda>s. result_id s = session_pk) (Session_objects db)"

text \<open>Line 164: \<open>FacetteSelection.objects.filter(session=session)\<close>; \<open>None\<close> selects the
  rows whose session is null.\<close>

definition selections_of :: "database \<Rightarrow> Session option \<Rightarrow> FacetteSelection list" where
  "selections_of db s =
     filter (\<lambda>sel. session sel = map_option session_id s) (FacetteSelection_objects db)"

text \<open>Lines 162-183: the ranking computed by ResultListWidgetSerializer.get_choosables.\<close>

definition compute_ranking :: "environment \<Rightarrow> database \<Rightarrow> string \<Rightarrow> error + (nat \<rightharpoonup> int)" where
  "compute_ranking env db session_pk =
     (let session = find_session db session_pk;
          choosables = Choosable_objects db;
          selections = selections_of db session
      in ranking_loop env db selections choosables Map.empty)"

section \<open>The Choosable serializers (choosable.py, widget.py lines 138-150)\<close>

record ChoosableData =
  data_id :: nat
  data_name :: string
  data_description :: string
  data_bg_color :: string
  data_fg_color :: string
  data_meta :: "(string \<times> string) list"

record RankedChoosableData = ChoosableData +
  data_rank :: int

datatype 'a response = Response (status_code: nat) (response_data: "'a option")

text \<open>choosable.py line 41: the language is the literal \<open>"en"\<close>.\<close>

definition get_description :: "environment \<Rightarrow> Choosable \<Rightarrow> string" where
  "get_description env obj = translate env obj ''description'' ''en''"

text \<open>choosable.py lines 42-46: every value of \<open>obj.meta\<close> is replaced by its \<open>meta_value\<close>.\<close>

definition get_meta :: "Choosable \<Rightarrow> (string \<times> string) list" where
  "get_meta obj = map (\<lambda>(key, v). (key, meta_value v)) (meta obj)"

definition ChoosableSerializer :: "environment \<Rightarrow> Choosable \<Rightarrow> ChoosableData" where
  "ChoosableSerializer env obj =
     \<lparr>data_id = pk obj, data_name = name obj, data_description = get_description env obj,
      data_bg_color = bg_color obj, data_fg_color = fg_color obj, data_meta = get_meta obj\<rparr>"

text \<open>
  choosable.py lines 61-65. \<open>lang\<close> is \<open>request.query_params.get('lang')\<close>, \<open>None\<close> when
  the parameter is missing; the inherited \<open>list\<close> serializes the queryset.
\<close>

definition ChoosableViewSet_list ::
  "environment \<Rightarrow> database \<Rightarrow> string option \<Rightarrow> ChoosableData list response" where
  "ChoosableViewSet_list env db lang =
     (if lang \<notin> set (map Some (LANGUAGE_CODES env)) then Response 412 None
      else Response 200 (Some (map (ChoosableSerializer env) (Choosable_objects db))))"

text \<open>widget.py lines 145-146; \<open>obj.pk in ranking\<close> is \<open>ranking (pk obj) \<noteq> None\<close>.\<close>

definition get_rank :: "(nat \<rightharpoonup> int) \<Rightarrow> Choosable \<Rightarrow> int" where
  "get_rank ranking obj =
     (if ranking (pk obj) \<noteq> None then the (ranking (pk obj)) else 9999999999)"

text \<open>widget.py lines 148-150: \<open>session.language_code\<close> is read without a test for \<open>None\<close>.\<close>

definition ranked_get_description ::
  "environment \<Rightarrow> database \<Rightarrow> string \<Rightarrow> Choosable \<Rightarrow> error + string" where
  "ranked_get_description env db session_pk obj =
     (case find_session db session_pk of
        None \<Rightarrow> Inl (AttributeError ''language_code'')
      | Some s \<Rightarrow> Inr (translate env obj ''description'' (language_code s)))"

definition RankedChoosableSerializer ::
  "environment \<Rightarrow> database \<Rightarrow> string \<Rightarrow> (nat \<rightharpoonup> int) \<Rightarrow> Choosable
     \<Rightarrow> error + RankedChoosableData" where
  "RankedChoosableSerializer env db session_pk ranking obj =
     (case ranked_get_description env db session_pk obj of
        Inl e \<Rightarrow> Inl e
      | Inr d \<Rightarrow>
          Inr \<lparr>data_id = pk obj, data_name = name obj, data_description = d,
               data_bg_color = bg_color obj, data_fg_color = fg_color obj,
               data_meta = get_meta obj, data_rank = get_rank ranking obj\<rparr>)"

text \<open>A serializer with \<open>many=True\<close>: the first failing item aborts the list.\<close>

fun serialize_many :: "('a \<Rightarrow> error + 'b) \<Rightarrow> 'a list \<Rightarrow> error + 'b list" where
  "serialize_many f [] = Inr []"
| "serialize_many f (x # xs) =
     (case f x of
        Inl e \<Rightarrow> Inl e
      | Inr y \<Rightarrow> (case serialize_many f xs of Inl e \<Rightarrow> Inl e | Inr ys \<Rightarrow> Inr (y # ys)))"

text \<open>widget.py lines 161-192.\<close>

definition get_choosables ::
  "environment \<Rightarrow> database \<Rightarrow> string \<Rightarrow> error + RankedChoosableData list" where
  "get_choosables env db session_pk =
     (case compute_ranking env db session_pk of
        Inl e \<Rightarrow> Inl e
      | Inr ranking \<Rightarrow>
          serialize_many (RankedChoosableSerializer env db session_pk ranking)
            (Choosable_objects db))"

section \<open>The widget serializers and WidgetViewSet.list\<close>

text \<open>
  Modelled from the spec: the widget classes of web.models, which is not among the
  source files. The spec names the variants (HTML content, navigation,
  session-version list, two facette-selection variants, result list, result share)
  under one polymorphic base, the radio variant being the specialized form of the
  facette-selection widget (the registry at lines 245-255 lists it first, under the
  comment "specialized before generic").
\<close>

definition Widget :: pyclass where
  "Widget = PyClass ''Widget'' []"

definition HTMLWidget :: pyclass where
  "HTMLWidget = PyClass ''HTMLWidget'' [Widget]"

definition NavigationWidget :: pyclass where
  "NavigationWidget = PyClass ''NavigationWidget'' [Widget]"

definition SessionVersionWidget :: pyclass where
  "SessionVersionWidget = PyClass ''SessionVersionWidget'' [Widget]"

definition FacetteSelectionWidget :: pyclass where
  "FacetteSelectionWidget = PyClass ''FacetteSelectionWidget'' [Widget]"

definition FacetteRadioSelectionWidget :: pyclass where
  "FacetteRadioSelectionWidget = PyClass ''FacetteRadioSelectionWidget'' [FacetteSelectionWidget]"

definition ResultListWidget :: pyclass where
  "ResultListWidget = PyClass ''ResultListWidget'' [Widget]"

definition ResultShareWidget :: pyclass where
  "ResultShareWidget = PyClass ''ResultShareWidget'' [Widget]"

datatype serializer =
    HTMLWidgetSerializer
  | NavigationWidgetSerializer
  | SessionVersionWidgetSerializer
  | FacetteRadioSelectionWidgetSerializer
  | FacetteSelectionWidgetSerializer
  | ResultListWidgetSerializer
  | ResultShareWidgetSerializer

text \<open>The fields a serializer adds to \<open>WIDGET_SERIALIZER_BASE_FIELDS\<close>.\<close>

datatype extra_fields =
    NoExtra
  | TemplateField string
  | FacetteFields nat "string list"
  | VersionsField "string list"
  | ChoosablesField "RankedChoosableData list"

record WidgetData =
  out_id :: nat
  out_row :: nat
  out_col :: nat
  out_width :: nat
  out_pages :: "nat list"
  out_widget_type :: string
  out_extra :: extra_fields

definition base_fields :: "Widget \<Rightarrow> extra_fields \<Rightarrow> WidgetData" where
  "base_fields obj x =
     \<lparr>out_id = widget_id obj, out_row = row obj, out_col = col obj, out_width = width obj,
      out_pages = pages obj, out_widget_type = widget_type obj, out_extra = x\<rparr>"

text \<open>\<open>selected_serializer(widget).data\<close> with \<open>session_pk\<close> in the context, lines 62-192.\<close>

fun serializer_data ::
  "environment \<Rightarrow> database \<Rightarrow> string \<Rightarrow> serializer \<Rightarrow> Widget \<Rightarrow> error + WidgetData" where
  "serializer_data env db session_pk HTMLWidgetSerializer obj =
     Inr (base_fields obj (TemplateField (template obj)))"
| "serializer_data env db session_pk NavigationWidgetSerializer obj =
     Inr (base_fields obj NoExtra)"
| "serializer_data env db session_pk SessionVersionWidgetSerializer obj =
     (case SessionVersionSerializer_data env session_pk of
        Inl e \<Rightarrow> Inl e
      | Inr versions \<Rightarrow> Inr (base_fields obj (VersionsField versions)))"
| "serializer_data env db session_pk FacetteRadioSelectionWidgetSerializer obj =
     (case FacetteSerializer_data env session_pk (topic obj) of
        Inl e \<Rightarrow> Inl e
      | Inr fs \<Rightarrow> Inr (base_fields obj (FacetteFields (topic obj) fs)))"
| "serializer_data env db session_pk FacetteSelectionWidgetSerializer obj =
     (case FacetteSerializer_data env session_pk (topic obj) of
        Inl e \<Rightarrow> Inl e
      | Inr fs \<Rightarrow> Inr (base_fields obj (FacetteFields (topic obj) fs)))"
| "serializer_data env db session_pk ResultListWidgetSerializer obj =
     (case get_choosables env db session_pk of
        Inl e \<Rightarrow> Inl e
      | Inr cs \<Rightarrow> Inr (base_fields obj (ChoosablesField cs)))"
| "serializer_data env db session_pk ResultShareWidgetSerializer obj =
     Inr (base_fields obj NoExtra)"

text \<open>Lines 245-255: the ordered registry.\<close>

definition serializers :: "(pyclass \<times> serializer) list" where
  "serializers =
     [(HTMLWidget, HTMLWidgetSerializer),
      (NavigationWidget, NavigationWidgetSerializer),
      (SessionVersionWidget, SessionVersionWidgetSerializer),
      (FacetteRadioSelectionWidget, FacetteRadioSelectionWidgetSerializer),
      (FacetteSelectionWidget, FacetteSelectionWidgetSerializer),
      (ResultListWidget, ResultListWidgetSerializer),
      (ResultShareWidget, ResultShareWidgetSerializer)]"

definition isinstance :: "Widget \<Rightarrow> pyclass \<Rightarrow> bool" where
  "isinstance widget key = issubclass (wclass widget) key"

text \<open>
  Lines 258-264, the inner loop up to the choice of the serializer: at the first
  key the widget is an instance of, the serializer is read from the registry at the
  widget's own class, \<open>serializers[type(widget)]\<close>, and the loop breaks. \<open>None\<close>: the
  loop ran through without a match.
\<close>

fun select_serializer :: "(pyclass \<times> serializer) list \<Rightarrow> Widget \<Rightarrow> error + serializer option" where
  "select_serializer [] widget = Inr None"
| "select_serializer ((key, v) # rest) widget =
     (if isinstance widget key
      then (case map_of serializers (wclass widget) of
              None \<Rightarrow> Inl (KeyError (cname (wclass widget)))
            | Some selected_serializer \<Rightarrow> Inr (Some selected_serializer))
      else select_serializer rest widget)"

text \<open>Lines 257-264: the loop over the page's widgets, appending to \<open>result\<close>.\<close>

fun widgets_loop ::
  "environment \<Rightarrow> database \<Rightarrow> string \<Rightarrow> Widget list \<Rightarrow> WidgetData list
     \<Rightarrow> error + WidgetData list" where
  "widgets_loop env db session_pk [] result = Inr result"
| "widgets_loop env db session_pk (widget # rest) result =
     (case select_serializer serializers widget of
        Inl e \<Rightarrow> Inl e
      | Inr None \<Rightarrow> widgets_loop env db session_pk rest result
      | Inr (Some selected_serializer) \<Rightarrow>
          (case serializer_data env db session_pk selected_serializer widget of
             Inl e \<Rightarrow> Inl e
           | Inr results \<Rightarrow> widgets_loop env db session_pk rest (result @ [results])))"

text \<open>
  Lines 236-266. \<open>page_pk\<close> is \<open>kwargs.get("page_pk")\<close>; without a page, \<open>obj\<close> is
  \<open>None\<close> and reading \<open>obj.widget_list\<close> raises.
\<close>

definition WidgetViewSet_list ::
  "environment \<Rightarrow> database \<Rightarrow> string \<Rightarrow> nat option \<Rightarrow> error + WidgetData list response" where
  "WidgetViewSet_list env db session_pk page_pk =
     (let obj = (case page_pk of
                   None \<Rightarrow> None
                 | Some p \<Rightarrow> find (\<lambda>pg. page_id pg = p) (Page_objects db))
      in case obj of
           None \<Rightarrow> Inl (AttributeError ''widget_list'')
         | Some page \<Rightarrow>
             (case widgets_loop env db session_pk (widget_list page) [] of
                Inl e \<Rightarrow> Inl e
              | Inr result \<Rightarrow> Inr (Response 200 (Some result))))"

section \<open>Predicates used to state the properties\<close>

text \<open>Pointwise order on score vectors: the same categories in the same order, each
  score at most the corresponding one.\<close>

definition scores_le :: "scores \<Rightarrow> scores \<Rightarrow> bool" where
  "scores_le a b = list_all2 (\<lambda>x y. fst x = fst y \<and> snd x \<le> snd y) a b"

text \<open>The widget's own class is a key of the registry.\<close>

definition registered :: "Widget \<Rightarrow> bool" where
  "registered w = (wclass w \<in> fst ` set serializers)"

text \<open>The widget is an instance of some key of the registry.\<close>

definition matches_registered :: "Widget \<Rightarrow> bool" where
  "matches_registered w = list_ex (\<lambda>(k, v). isinstance w k) serializers"

text \<open>The record a registered widget is rendered to: its own class's serializer.\<close>

definition render_registered ::
  "environment \<Rightarrow> database \<Rightarrow> string \<Rightarrow> Widget \<Rightarrow> error + WidgetData" where
  "render_registered env db session_pk w =
     (case map_of serializers (wclass w) of
        None \<Rightarrow> Inl (KeyError (cname (wclass w)))
      | Some s \<Rightarrow> serializer_data env db session_pk s w)"

section \<open>A concrete configuration and database\<close>

text \<open>
  The scenario of the specification: weights low = 1 and high = 3, the categories
  "supports" and "opposes" reduced by supports minus opposes, a session \<open>abc\<close> with
  two selections, and two assignments that both target choosable 1 only.
\<close>

definition example_env :: environment where
  "example_env =
     \<lparr>WEIGHT_MAP = map_of [(''low'', 1), (''high'', 3)],
      LANGUAGE_CODES = [''en'', ''de''],
      choices = [(''supports'', ''Supports''), (''opposes'', ''Opposes'')],
      get_score = (\<lambda>sc. case (map_of sc ''supports'', map_of sc ''opposes'') of
                           (Some a, Some b) \<Rightarrow> Inr (a - b)
                         | _ \<Rightarrow> Inl (KeyError ''supports'')),
      translate = (\<lambda>c field lang. field @ ''/'' @ lang @ ''/'' @ name c),
      FacetteSerializer_data = (\<lambda>session_pk t. Inr []),
      SessionVersionSerializer_data = (\<lambda>session_pk. Inr [])\<rparr>"

definition choosable_1 :: Choosable where
  "choosable_1 = \<lparr>pk = 1, name = ''C1'', bg_color = ''#000'', fg_color = ''#fff'', meta = []\<rparr>"

definition choosable_2 :: Choosable where
  "choosable_2 = \<lparr>pk = 2, name = ''C2'', bg_color = ''#000'', fg_color = ''#fff'',
     meta = [(''age'', \<lparr>meta_value = ''5''\<rparr>)]\<rparr>"

definition html_widget :: Widget where
  "html_widget = \<lparr>wclass = HTMLWidget, widget_id = 1, row = 1, col = 1, width = 12,
     pages = [1], widget_type = ''html'', template = ''intro.html'', topic = 0\<rparr>"

definition result_widget :: Widget where
  "result_widget = \<lparr>wclass = ResultListWidget, widget_id = 2, row = 2, col = 1, width = 12,
     pages = [1], widget_type = ''resultlist'', template = [], topic = 0\<rparr>"

definition radio_widget :: Widget where
  "radio_widget = \<lparr>wclass = FacetteRadioSelectionWidget, widget_id = 3, row = 1, col = 1,
     width = 6, pages = [2], widget_type = ''radio'', template = [], topic = 7\<rparr>"

text \<open>An instance of the base class itself: an instance of no registered class.\<close>

definition base_widget :: Widget where
  "base_widget = \<lparr>wclass = Widget, widget_id = 4, row = 3, col = 1,
     width = 6, pages = [2], widget_type = ''widget'', template = [], topic = 0\<rparr>"

text \<open>An instance of a subclass of HTMLWidget that the registry does not list.\<close>

definition teaser_widget :: Widget where
  "teaser_widget = \<lparr>wclass = PyClass ''TeaserWidget'' [HTMLWidget], widget_id = 5, row = 1,
     col = 1, width = 6, pages = [3], widget_type = ''teaser'', template = ''t.html'',
     topic = 0\<rparr>"

definition example_db :: database where
  "example_db =
     \<lparr>Choosable_objects = [choosable_1, choosable_2],
      Session_objects = [\<lparr>session_id = 1, result_id = ''abc'', language_code = ''de''\<rparr>],
      FacetteSelection_objects =
        [\<lparr>session = Some 1, facette = 10, weight = ''high''\<rparr>,
         \<lparr>session = Some 1, facette = 20, weight = ''low''\<rparr>],
      FacetteAssignment_objects =
        [\<lparr>facettes = [10], choosables = [1], assignment_type = ''supports''\<rparr>,
         \<lparr>facettes = [20], choosables = [1], assignment_type = ''opposes''\<rparr>],
      Page_objects =
        [\<lparr>page_id = 1, widget_list = [html_widget, result_widget]\<rparr>,
         \<lparr>page_id = 2, widget_list = [radio_widget, base_widget, html_widget]\<rparr>,
         \<lparr>page_id = 3, widget_list = [html_widget, teaser_widget]\<rparr>]\<rparr>"

text \<open>The same database with a selection whose weight label is not in the weight map.\<close>

definition bogus_selection :: FacetteSelection where
  "bogus_selection = \<lparr>session = Some 1, facette = 10, weight = ''bogus''\<rparr>"

definition bogus_db :: database where
  "bogus_db = example_db\<lparr>FacetteSelection_objects := [bogus_selection]\<rparr>"

text \<open>... and with an empty catalog of choosables as well.\<close>

definition empty_catalog_db :: database where
  "empty_catalog_db = bogus_db\<lparr>Choosable_objects := []\<rparr>"

text \<open>The example database before the session has selected anything.\<close>

definition fresh_db :: database where
  "fresh_db = example_db\<lparr>FacetteSelection_objects := []\<rparr>"

definition high_selection :: FacetteSelection where
  "high_selection = \<lparr>session = Some 1, facette = 10, weight = ''high''\<rparr>"

definition low_selection :: FacetteSelection where
  "low_selection = \<lparr>session = Some 1, facette = 20, weight = ''low''\<rparr>"

section \<open>Lemmas on the scoring pass\<close>

lemmas example_defs = example_env_def example_db_def choosable_1_def choosable_2_def
  bogus_db_def bogus_selection_def empty_catalog_db_def fresh_db_def high_selection_def
  low_selection_def

lemmas scoring_defs = score_vector_def selections_of_def find_session_def assignments_of_def
  add_score_def

lemma update_keys_set: "fst ` set (AList.update k v al) = insert k (fst ` set al)"
  by (induction al) auto

lemma update_zero:
  "\<forall>v \<in> snd ` set sc. v = 0 \<Longrightarrow> \<forall>v \<in> snd ` set (AList.update i (0::int) sc). v = 0"
  by (induction sc) auto

lemma init_scores_keys: "fst ` set (init_scores cs sc) = fst ` set cs \<union> fst ` set sc"
  by (induction cs sc rule: init_scores.induct) (simp_all add: update_keys_set)

lemma init_scores_zero:
  "\<forall>v \<in> snd ` set sc. v = 0 \<Longrightarrow> \<forall>v \<in> snd ` set (init_scores cs sc). v = 0"
proof (induction cs sc rule: init_scores.induct)
  case (1 sc)
  then show ?case by simp
next
  case (2 i l rest sc)
  from "2.IH" [OF update_zero [OF "2.prems"]] show ?case by simp
qed

lemma init_scores_distinct:
  "distinct (map fst sc) \<Longrightarrow> distinct (map fst (init_scores cs sc))"
  by (induction cs sc rule: init_scores.induct) (simp_all add: distinct_update)

text \<open>One \<open>+=\<close> either keeps the keys or fails on a key that has no slot.\<close>

lemma add_score_result:
  "(\<exists>sc'. add_score sc k w = Inr sc' \<and> map fst sc' = map fst sc) \<or>
   (add_score sc k w = Inl (KeyError k) \<and> k \<notin> fst ` set sc)"
  unfolding add_score_def
  by (auto split: option.splits simp: map_of_eq_None_iff update_keys dest: weak_map_of_SomeI)

lemma assignments_loop_result:
  "(\<exists>sc'. assignments_loop w as sc = Inr sc' \<and> map fst sc' = map fst sc) \<or>
   (\<exists>k. assignments_loop w as sc = Inl (KeyError k) \<and> k \<notin> fst ` set sc)"
proof (induction as arbitrary: sc)
  case Nil
  show ?case by simp
next
  case (Cons a as)
  from add_score_result [of sc "assignment_type a" "1 * w"] show ?case
  proof
    assume "\<exists>sc'. add_score sc (assignment_type a) (1 * w) = Inr sc' \<and> map fst sc' = map fst sc"
    then obtain sc' where s: "add_score sc (assignment_type a) (1 * w) = Inr sc'"
      and k: "map fst sc' = map fst sc" by blast
    from k have "fst ` set sc' = fst ` set sc" by (metis set_map)
    with Cons.IH [of sc'] s k show ?thesis by (auto simp: Let_def)
  next
    assume "add_score sc (assignment_type a) (1 * w) = Inl (KeyError (assignment_type a)) \<and>
      assignment_type a \<notin> fst ` set sc"
    then show ?thesis by (auto simp: Let_def)
  qed
qed

text \<open>A selection with an unknown label makes the selection loop raise KeyError: at
  that label, or before it at a category without a slot.\<close>

lemma selections_loop_unknown_label:
  "sel \<in> set sels \<Longrightarrow> WEIGHT_MAP env (weight sel) = None \<Longrightarrow>
   \<exists>k. selections_loop env db sels sc = Inl (KeyError k) \<and>
       (WEIGHT_MAP env k = None \<or> k \<notin> fst ` set sc)"
proof (induction sels arbitrary: sc)
  case Nil
  then show ?case by simp
next
  case (Cons s sels)
  show ?case
  proof (cases "WEIGHT_MAP env (weight s)")
    case None
    then show ?thesis by (auto simp: Let_def)
  next
    case (Some v)
    with Cons.prems have mem: "sel \<in> set sels" by auto
    from assignments_loop_result [of v "assignments_of db (facette s)" sc] show ?thesis
    proof
      assume "\<exists>sc'. assignments_loop v (assignments_of db (facette s)) sc = Inr sc' \<and>
        map fst sc' = map fst sc"
      then obtain sc' where s: "assignments_loop v (assignments_of db (facette s)) sc = Inr sc'"
        and k: "map fst sc' = map fst sc" by blast
      from k have "fst ` set sc' = fst ` set sc" by (metis set_map)
      with Cons.IH [OF mem Cons.prems(2), of sc'] s Some show ?thesis by (auto simp: Let_def)
    next
      assume "\<exists>k. assignments_loop v (assignments_of db (facette s)) sc = Inl (KeyError k) \<and>
        k \<notin> fst ` set sc"
      with Some show ?thesis by (auto simp: Let_def)
    qed
  qed
qed

lemma ranking_loop_raises:
  "score_vector env db sels c = Inl e \<Longrightarrow> ranking_loop env db sels (c # cs) r = Inl e"
  by simp

text \<open>Monotonicity of the accumulation in the scores and in the weight.\<close>

lemma scores_le_update:
  "scores_le a b \<Longrightarrow> v \<le> v' \<Longrightarrow> scores_le (AList.update k v a) (AList.update k v' b)"
  unfolding scores_le_def
  by (induction a b rule: list_all2_induct) auto

lemma scores_le_map_of:
  "scores_le a b \<Longrightarrow> map_of a k = Some v \<Longrightarrow> \<exists>v'. map_of b k = Some v' \<and> v \<le> v'"
  unfolding scores_le_def
  by (induction a b rule: list_all2_induct) (auto split: if_splits)

lemma add_score_le:
  assumes "scores_le a b" "w \<le> w'" "add_score a k w = Inr t"
  shows "\<exists>t'. add_score b k w' = Inr t' \<and> scores_le t t'"
proof -
  from assms(3) obtain v where v: "map_of a k = Some v" and t: "t = AList.update k (v + w) a"
    by (auto simp: add_score_def split: option.splits)
  from scores_le_map_of [OF assms(1) v] obtain v' where v': "map_of b k = Some v'" "v \<le> v'"
    by blast
  with assms(2) have "v + w \<le> v' + w'" by simp
  from scores_le_update [OF assms(1) this] v' t show ?thesis
    by (simp add: add_score_def)
qed

lemma assignments_loop_le:
  "scores_le a b \<Longrightarrow> w \<le> w' \<Longrightarrow> assignments_loop w as a = Inr t \<Longrightarrow>
   \<exists>t'. assignments_loop w' as b = Inr t' \<and> scores_le t t'"
proof (induction as arbitrary: a b)
  case Nil
  then show ?case by simp
next
  case (Cons x as)
  from Cons.prems(3) obtain a1 where a1: "add_score a (assignment_type x) (1 * w) = Inr a1"
    and rest: "assignments_loop w as a1 = Inr t"
    by (auto simp: Let_def split: sum.splits)
  from Cons.prems(2) have "1 * w \<le> 1 * w'" by simp
  from add_score_le [OF Cons.prems(1) this a1] obtain b1
    where b1: "add_score b (assignment_type x) (1 * w') = Inr b1" and le: "scores_le a1 b1"
    by blast
  from Cons.IH [OF le Cons.prems(2) rest] b1 show ?case by (simp add: Let_def)
qed

lemma selections_loop_le:
  "scores_le a b \<Longrightarrow> selections_loop env db sels a = Inr t \<Longrightarrow>
   \<exists>t'. selections_loop env db sels b = Inr t' \<and> scores_le t t'"
proof (induction sels arbitrary: a b)
  case Nil
  then show ?case by simp
next
  case (Cons s sels)
  from Cons.prems(2) obtain v a1 where v: "WEIGHT_MAP env (weight s) = Some v"
    and a1: "assignments_loop v (assignments_of db (facette s)) a = Inr a1"
    and rest: "selections_loop env db sels a1 = Inr t"
    by (auto simp: Let_def split: option.splits sum.splits)
  from assignments_loop_le [OF Cons.prems(1) order_refl a1] obtain b1
    where b1: "assignments_loop v (assignments_of db (facette s)) b = Inr b1"
      and le: "scores_le a1 b1"
    by blast
  from Cons.IH [OF le rest] v b1 show ?case by (simp add: Let_def)
qed

lemma selections_loop_replace:
  assumes v: "WEIGHT_MAP env (weight s) = Some v" and v': "WEIGHT_MAP env l' = Some v'"
    and less: "v \<le> v'"
  shows "scores_le a b \<Longrightarrow> selections_loop env db (xs @ s # ys) a = Inr t \<Longrightarrow>
   \<exists>t'. selections_loop env db (xs @ s\<lparr>weight := l'\<rparr> # ys) b = Inr t' \<and> scores_le t t'"
proof (induction xs arbitrary: a b)
  case Nil
  from Nil.prems(2) v obtain a1
    where a1: "assignments_loop v (assignments_of db (facette s)) a = Inr a1"
      and rest: "selections_loop env db ys a1 = Inr t"
    by (auto simp: Let_def split: sum.splits)
  from assignments_loop_le [OF Nil.prems(1) less a1] obtain b1
    where b1: "assignments_loop v' (assignments_of db (facette s)) b = Inr b1"
      and le: "scores_le a1 b1"
    by blast
  from selections_loop_le [OF le rest] v' b1 show ?case by (simp add: Let_def)
next
  case (Cons x xs)
  from Cons.prems(2) obtain w a1 where w: "WEIGHT_MAP env (weight x) = Some w"
    and a1: "assignments_loop w (assignments_of db (facette x)) a = Inr a1"
    and rest: "selections_loop env db (xs @ s # ys) a1 = Inr t"
    by (auto simp: Let_def split: option.splits sum.splits)
  from assignments_loop_le [OF Cons.prems(1) order_refl a1] obtain b1
    where b1: "assignments_loop w (assignments_of db (facette x)) b = Inr b1"
      and le: "scores_le a1 b1"
    by blast
  from Cons.IH [OF le rest] w b1 show ?case by (simp add: Let_def)
qed

text \<open>Without selections every choosable is reduced from the initial vector.\<close>

lemma ranking_loop_no_selections:
  "get_score env (init_scores (choices env) []) = Inr v \<Longrightarrow>
   ranking_loop env db [] cs r = Inr (\<lambda>p. if p \<in> pk ` set cs then Some v else r p)"
proof (induction cs arbitrary: r)
  case Nil
  show ?case by simp
next
  case (Cons c cs)
  have step: "ranking_loop env db [] (c # cs) r = ranking_loop env db [] cs (r(pk c \<mapsto> v))"
    using Cons.prems by (simp add: score_vector_def)
  have "(\<lambda>p. if p \<in> pk ` set cs then Some v else (r(pk c \<mapsto> v)) p) =
        (\<lambda>p. if p \<in> pk ` set (c # cs) then Some v else r p)"
    by (auto simp: fun_eq_iff)
  with Cons.IH [OF Cons.prems, of "r(pk c \<mapsto> v)"] step show ?case by (simp only:)
qed

lemma ranking_loop_no_selections_returns:
  "ranking_loop env db [] (c # cs) r = Inr r' \<Longrightarrow>
   \<exists>v. get_score env (init_scores (choices env) []) = Inr v"
  by (auto simp: score_vector_def split: sum.splits)

section \<open>The scoring pass: claims\<close>

text \<open>
  Claim C1 says that an assignment adds to the score vector of a choosable only when
  its target set includes that choosable. The scoring pass never reads the target
  set: in the scenario of the specification no assignment targets choosable 2, and
  yet its vector receives both contributions, exactly as the vector of choosable 1.
\<close>

theorem untargeted_choosable_is_scored:
  "list_all (\<lambda>a. pk choosable_2 \<notin> set (choosables a)) (FacetteAssignment_objects example_db) \<and>
   score_vector example_env example_db
       (selections_of example_db (find_session example_db ''abc'')) choosable_2 =
     Inr [(''supports'', 3), (''opposes'', 1)] \<and>
   score_vector example_env example_db
       (selections_of example_db (find_session example_db ''abc'')) choosable_1 =
     Inr [(''supports'', 3), (''opposes'', 1)]"
  by (simp add: scoring_defs example_defs)

text \<open>
  Claim C4, as amended: when the catalog holds at least one choosable and the session
  has a selection whose weight label is not in the weight map, no score vector is
  produced and the ranking computation and \<open>get_choosables\<close> raise a KeyError, whose
  key is a label missing from the weight map or, when an earlier assignment has one,
  a category outside the enumerated domain. The selection is never scored as zero.
\<close>

theorem unknown_weight_label_aborts:
  assumes "Choosable_objects db \<noteq> []"
    and "sel \<in> set (selections_of db (find_session db session_pk))"
    and "WEIGHT_MAP env (weight sel) = None"
  shows "\<exists>k. compute_ranking env db session_pk = Inl (KeyError k) \<and>
             get_choosables env db session_pk = Inl (KeyError k) \<and>
             (\<forall>c. score_vector env db (selections_of db (find_session db session_pk)) c =
                    Inl (KeyError k)) \<and>
             (WEIGHT_MAP env k = None \<or> k \<notin> fst ` set (choices env))"
proof -
  let ?sels = "selections_of db (find_session db session_pk)"
  from selections_loop_unknown_label [OF assms(2,3), of db "init_scores (choices env) []"]
  obtain k where k: "selections_loop env db ?sels (init_scores (choices env) []) = Inl (KeyError k)"
    and why: "WEIGHT_MAP env k = None \<or> k \<notin> fst ` set (init_scores (choices env) [])"
    by blast
  from k have sv: "\<And>c. score_vector env db ?sels c = Inl (KeyError k)"
    by (simp add: score_vector_def)
  from assms(1) obtain c cs where cs: "Choosable_objects db = c # cs"
    by (cases "Choosable_objects db") auto
  from ranking_loop_raises [OF sv] cs
  have r: "compute_ranking env db session_pk = Inl (KeyError k)"
    by (simp add: compute_ranking_def)
  then have g: "get_choosables env db session_pk = Inl (KeyError k)"
    by (simp add: get_choosables_def)
  from why have "WEIGHT_MAP env k = None \<or> k \<notin> fst ` set (choices env)"
    by (simp add: init_scores_keys)
  with r g sv show ?thesis by blast
qed

theorem unknown_weight_label_aborts_witness:
  "Choosable_objects bogus_db \<noteq> [] \<and>
   bogus_selection \<in> set (selections_of bogus_db (find_session bogus_db ''abc'')) \<and>
   WEIGHT_MAP example_env (weight bogus_selection) = None \<and>
   compute_ranking example_env bogus_db ''abc'' = Inl (KeyError ''bogus'') \<and>
   get_choosables example_env bogus_db ''abc'' = Inl (KeyError ''bogus'')"
  using unknown_weight_label_aborts [of bogus_db bogus_selection "''abc''" example_env]
  by (simp add: scoring_defs example_defs compute_ranking_def get_choosables_def)

text \<open>
  Claim C4 as stated fails on an empty catalog: the weight lookup sits inside the
  loop over the choosables, so with no choosable the unknown label is never looked
  up and \<open>get_choosables\<close> returns normally.
\<close>

theorem unknown_weight_label_empty_catalog:
  "bogus_selection \<in> set (selections_of empty_catalog_db (find_session empty_catalog_db ''abc'')) \<and>
   WEIGHT_MAP example_env (weight bogus_selection) = None \<and>
   compute_ranking example_env empty_catalog_db ''abc'' = Inr Map.empty \<and>
   get_choosables example_env empty_catalog_db ''abc'' = Inr []"
  by (simp add: scoring_defs example_defs compute_ranking_def get_choosables_def)

text \<open>
  Claim C6: for a session without selections, the score vector of every choosable is
  the initial one, which has exactly one slot per category identifier of the
  enumerated domain, each holding zero; hence every choosable is reduced from the
  same vector, and the ranking gives all choosables the same rank (it exists as soon
  as the reduction of the zero vector does).
\<close>

theorem no_selections_all_zero:
  assumes "selections_of db (find_session db session_pk) = []"
  shows "(\<forall>c \<in> set (Choosable_objects db).
            score_vector env db (selections_of db (find_session db session_pk)) c =
              Inr (init_scores (choices env) [])) \<and>
         fst ` set (init_scores (choices env) []) = fst ` set (choices env) \<and>
         distinct (map fst (init_scores (choices env) [])) \<and>
         (\<forall>v \<in> snd ` set (init_scores (choices env) []). v = 0) \<and>
         (\<forall>v. get_score env (init_scores (choices env) []) = Inr v \<longrightarrow>
            (\<exists>r. compute_ranking env db session_pk = Inr r \<and>
                 (\<forall>c \<in> set (Choosable_objects db). r (pk c) = Some v))) \<and>
         (\<forall>r. compute_ranking env db session_pk = Inr r \<longrightarrow>
            (\<forall>c \<in> set (Choosable_objects db). \<forall>c' \<in> set (Choosable_objects db).
               r (pk c) = r (pk c') \<and> r (pk c) \<noteq> None))"
proof -
  let ?zeros = "init_scores (choices env) []"
  have vec: "\<forall>c \<in> set (Choosable_objects db).
      score_vector env db (selections_of db (find_session db session_pk)) c = Inr ?zeros"
    by (simp add: assms score_vector_def)
  have keys: "fst ` set ?zeros = fst ` set (choices env)"
    by (simp add: init_scores_keys)
  have dist: "distinct (map fst ?zeros)"
    by (rule init_scores_distinct) simp
  have zero: "\<forall>v \<in> snd ` set ?zeros. v = 0"
    by (rule init_scores_zero) simp
  have rank: "compute_ranking env db session_pk =
      Inr (\<lambda>p. if p \<in> pk ` set (Choosable_objects db) then Some v else None)"
    if "get_score env ?zeros = Inr v" for v
    using ranking_loop_no_selections [OF that, of db "Choosable_objects db" Map.empty] assms
    by (simp add: compute_ranking_def)
  have total: "\<forall>v. get_score env ?zeros = Inr v \<longrightarrow>
      (\<exists>r. compute_ranking env db session_pk = Inr r \<and>
           (\<forall>c \<in> set (Choosable_objects db). r (pk c) = Some v))"
    using rank by simp
  have same: "\<forall>r. compute_ranking env db session_pk = Inr r \<longrightarrow>
      (\<forall>c \<in> set (Choosable_objects db). \<forall>c' \<in> set (Choosable_objects db).
         r (pk c) = r (pk c') \<and> r (pk c) \<noteq> None)"
  proof (intro allI impI ballI)
    fix r c c'
    assume r: "compute_ranking env db session_pk = Inr r"
      and c: "c \<in> set (Choosable_objects db)" and c': "c' \<in> set (Choosable_objects db)"
    from c obtain x xs where xs: "Choosable_objects db = x # xs"
      by (cases "Choosable_objects db") auto
    have "compute_ranking env db session_pk =
        ranking_loop env db [] (Choosable_objects db) Map.empty"
      by (simp add: compute_ranking_def assms)
    with r xs have "ranking_loop env db [] (x # xs) Map.empty = Inr r"
      by (simp only:)
    from ranking_loop_no_selections_returns [OF this]
    obtain v where "get_score env ?zeros = Inr v" by blast
    from rank [OF this] r c c' show "r (pk c) = r (pk c') \<and> r (pk c) \<noteq> None"
      by auto
  qed
  from vec keys dist zero total same show ?thesis by blast
qed

theorem no_selections_all_zero_witness:
  "selections_of fresh_db (find_session fresh_db ''abc'') = [] \<and>
   score_vector example_env fresh_db [] choosable_1 = Inr [(''supports'', 0), (''opposes'', 0)] \<and>
   score_vector example_env fresh_db [] choosable_2 = Inr [(''supports'', 0), (''opposes'', 0)] \<and>
   (\<exists>r. compute_ranking example_env fresh_db ''abc'' = Inr r \<and> r 1 = Some 0 \<and> r 2 = Some 0)"
  using no_selections_all_zero [of fresh_db "''abc''" example_env]
  by (simp add: scoring_defs example_defs)

text \<open>
  Claim C8: in any list of selections, replacing the weight label of one selection by
  a label whose numeric value is strictly greater leaves the scoring pass successful
  and gives a score vector with the same categories in which no score has decreased.
\<close>

theorem weight_monotone:
  assumes "WEIGHT_MAP env (weight s) = Some v"
    and "WEIGHT_MAP env l' = Some v'"
    and "v < v'"
    and "score_vector env db (xs @ s # ys) c = Inr sc"
  shows "\<exists>sc'. score_vector env db (xs @ s\<lparr>weight := l'\<rparr> # ys) c = Inr sc' \<and>
               scores_le sc sc' \<and> map fst sc' = map fst sc \<and>
               (\<forall>k x. map_of sc k = Some x \<longrightarrow> (\<exists>x'. map_of sc' k = Some x' \<and> x \<le> x'))"
proof -
  from assms(3) have le: "v \<le> v'" by simp
  have refl: "scores_le (init_scores (choices env) []) (init_scores (choices env) [])"
    by (simp add: scores_le_def list_all2_refl)
  from assms(4) have "selections_loop env db (xs @ s # ys) (init_scores (choices env) []) = Inr sc"
    by (simp add: score_vector_def)
  from selections_loop_replace [OF assms(1,2) le refl this]
  obtain sc' where sc': "selections_loop env db (xs @ s\<lparr>weight := l'\<rparr> # ys)
      (init_scores (choices env) []) = Inr sc'" and rel: "scores_le sc sc'"
    by blast
  from rel have "list_all2 (\<lambda>x y. fst x = fst y) sc sc'"
    unfolding scores_le_def by (rule list_all2_mono) simp
  then have "map fst sc = map fst sc'"
    by (induction sc sc' rule: list_all2_induct) simp_all
  with sc' rel scores_le_map_of [OF rel] show ?thesis
    by (auto simp: score_vector_def)
qed

theorem weight_monotone_witness:
  "WEIGHT_MAP example_env (weight low_selection) = Some 1 \<and>
   WEIGHT_MAP example_env ''high'' = Some 3 \<and> (1::int) < 3 \<and>
   score_vector example_env example_db ([high_selection] @ low_selection # []) choosable_1 =
     Inr [(''supports'', 3), (''opposes'', 1)] \<and>
   score_vector example_env example_db
       ([high_selection] @ low_selection\<lparr>weight := ''high''\<rparr> # []) choosable_1 =
     Inr [(''supports'', 3), (''opposes'', 3)]"
  using weight_monotone [of example_env low_selection 1 "''high''" 3 example_db
      "[high_selection]" "[]" choosable_1 "[(''supports'', 3), (''opposes'', 1)]"]
  by (simp add: scoring_defs example_defs)

section \<open>Lemmas on the widget dispatch\<close>

lemmas class_defs = Widget_def HTMLWidget_def NavigationWidget_def SessionVersionWidget_def
  FacetteSelectionWidget_def FacetteRadioSelectionWidget_def ResultListWidget_def
  ResultShareWidget_def

lemmas widget_defs = html_widget_def result_widget_def radio_widget_def base_widget_def
  teaser_widget_def

lemmas dispatch_defs = serializers_def isinstance_def registered_def matches_registered_def
  render_registered_def base_fields_def

lemma issubclass_refl: "issubclass c c"
  by (cases c) simp

lemma isinstance_own_class: "isinstance w (wclass w)"
  by (simp add: isinstance_def issubclass_refl)

lemma distinct_serializer_keys: "distinct (map fst serializers)"
  by (simp add: serializers_def class_defs)

lemma serializer_has_one_key:
  "(k, s) \<in> set serializers \<Longrightarrow> (k', s) \<in> set serializers \<Longrightarrow> k = k'"
  by (auto simp: serializers_def)

text \<open>The inner loop in closed form: the iteration order of the registry decides
  only whether a key matches, the serializer is read at the widget's own class.\<close>

lemma select_serializer_eq:
  "select_serializer reg w =
     (if list_ex (\<lambda>(k, v). isinstance w k) reg
      then (case map_of serializers (wclass w) of
              None \<Rightarrow> Inl (KeyError (cname (wclass w)))
            | Some s \<Rightarrow> Inr (Some s))
      else Inr None)"
  by (induction reg w rule: select_serializer.induct) auto

lemma select_registered:
  assumes "(wclass w, s) \<in> set serializers"
  shows "select_serializer serializers w = Inr (Some s)"
proof -
  from assms have m: "map_of serializers (wclass w) = Some s"
    using distinct_serializer_keys by simp
  from assms isinstance_own_class [of w]
  have "list_ex (\<lambda>(k, v). isinstance w k) serializers"
    by (auto simp: list_ex_iff)
  with m show ?thesis by (simp add: select_serializer_eq)
qed

lemma select_unregistered_subclass:
  assumes "matches_registered w" and "\<not> registered w"
  shows "select_serializer serializers w = Inl (KeyError (cname (wclass w)))"
proof -
  from assms(2) have "map_of serializers (wclass w) = None"
    by (simp add: map_of_eq_None_iff registered_def)
  with assms(1) show ?thesis
    by (simp add: select_serializer_eq matches_registered_def)
qed

lemma widgets_loop_raises:
  assumes "select_serializer serializers w = Inl e0"
  shows "w \<in> set ws \<Longrightarrow> \<exists>e. widgets_loop env db sp ws result = Inl e"
proof (induction ws arbitrary: result)
  case Nil
  then show ?case by simp
next
  case (Cons x ws)
  show ?case
  proof (cases "x = w")
    case True
    with assms show ?thesis by simp
  next
    case False
    with Cons.prems have "w \<in> set ws" by simp
    from Cons.IH [OF this] show ?thesis
      by (auto split: sum.splits option.splits)
  qed
qed



section \<open>The widget dispatch: claims\<close>

text \<open>
  Claim C3: a widget whose runtime class is a key of the registry is given the
  serializer registered for exactly that class, never the serializer registered for
  another class (such as a registered superclass), and the loop renders it with that
  serializer. For a FacetteRadioSelectionWidget this is the radio serializer, although
  the widget is an instance of FacetteSelectionWidget as well.
\<close>

theorem registered_class_gets_own_serializer:
  assumes "(wclass w, s) \<in> set serializers"
  shows "select_serializer serializers w = Inr (Some s) \<and>
         (\<forall>k s'. (k, s') \<in> set serializers \<and> k \<noteq> wclass w \<longrightarrow>
            select_serializer serializers w \<noteq> Inr (Some s')) \<and>
         widgets_loop env db session_pk (w # rest) result =
           (case serializer_data env db session_pk s w of
              Inl e \<Rightarrow> Inl e
            | Inr d \<Rightarrow> widgets_loop env db session_pk rest (result @ [d]))"
proof -
  have sel: "select_serializer serializers w = Inr (Some s)"
    by (rule select_registered [OF assms])
  have other: "\<forall>k s'. (k, s') \<in> set serializers \<and> k \<noteq> wclass w \<longrightarrow>
      select_serializer serializers w \<noteq> Inr (Some s')"
    using sel serializer_has_one_key [OF assms] by auto
  from sel other show ?thesis by simp
qed

theorem registered_class_gets_own_serializer_witness:
  "(wclass radio_widget, FacetteRadioSelectionWidgetSerializer) \<in> set serializers \<and>
   isinstance radio_widget FacetteSelectionWidget \<and>
   (FacetteSelectionWidget, FacetteSelectionWidgetSerializer) \<in> set serializers \<and>
   select_serializer serializers radio_widget = Inr (Some FacetteRadioSelectionWidgetSerializer) \<and>
   select_serializer serializers radio_widget \<noteq> Inr (Some FacetteSelectionWidgetSerializer)"
  using registered_class_gets_own_serializer
    [of radio_widget FacetteRadioSelectionWidgetSerializer]
  by (simp add: dispatch_defs class_defs widget_defs)

text \<open>
  Claim C9: a widget that is an instance of a registered class while its own class is
  not a key of the registry makes the dispatch raise KeyError at the lookup
  \<open>serializers[type(widget)]\<close>: the widget is neither skipped nor rendered, and a list
  that contains it is never rendered.
\<close>

theorem unregistered_subclass_raises:
  assumes "matches_registered w" and "\<not> registered w"
  shows "select_serializer serializers w = Inl (KeyError (cname (wclass w))) \<and>
         widgets_loop env db session_pk (w # rest) result = Inl (KeyError (cname (wclass w))) \<and>
         (\<forall>ws. w \<in> set ws \<longrightarrow> (\<exists>e. widgets_loop env db session_pk ws result = Inl e))"
proof -
  have sel: "select_serializer serializers w = Inl (KeyError (cname (wclass w)))"
    by (rule select_unregistered_subclass [OF assms])
  from sel widgets_loop_raises [OF sel] show ?thesis by simp
qed

theorem unregistered_subclass_raises_witness:
  "matches_registered teaser_widget \<and> \<not> registered teaser_widget \<and>
   select_serializer serializers teaser_widget = Inl (KeyError ''TeaserWidget'') \<and>
   widgets_loop example_env example_db ''abc'' (teaser_widget # [html_widget]) [] =
     Inl (KeyError ''TeaserWidget'')"
  using unregistered_subclass_raises
    [of teaser_widget example_env example_db "''abc''" "[html_widget]" "[]"]
  by (simp add: dispatch_defs class_defs widget_defs)




section \<open>Sessions, ranks and descriptions: claims\<close>

text \<open>
  Claim C2 says that for a result identifier that resolves to no session the ranking
  is not attempted and rendering completes without an exception. In the example
  database no session has the identifier \<open>nope\<close>: the ranking is computed all the
  same (over no selections, so every choosable is ranked 0), then
  \<open>get_description\<close> reads \<open>language_code\<close> from \<open>None\<close>, and the page, which also
  holds an HTML widget, is not rendered at all.
\<close>

theorem missing_session_raises:
  "find_session example_db ''nope'' = None \<and>
   (\<exists>r. compute_ranking example_env example_db ''nope'' = Inr r \<and>
        r 1 = Some 0 \<and> r 2 = Some 0) \<and>
   get_choosables example_env example_db ''nope'' = Inl (AttributeError ''language_code'') \<and>
   WidgetViewSet_list example_env example_db ''nope'' (Some 1) =
     Inl (AttributeError ''language_code'')"
proof -
  have none: "find_session example_db ''nope'' = None"
    by (simp add: find_session_def example_defs)
  have rank: "\<exists>r. compute_ranking example_env example_db ''nope'' = Inr r \<and>
      r 1 = Some 0 \<and> r 2 = Some 0"
    by (simp add: compute_ranking_def scoring_defs example_defs)
  have gc: "get_choosables example_env example_db ''nope'' =
      Inl (AttributeError ''language_code'')"
    by (simp add: get_choosables_def compute_ranking_def scoring_defs example_defs
        RankedChoosableSerializer_def ranked_get_description_def)
  have page: "find (\<lambda>pg. page_id pg = 1) (Page_objects example_db) =
      Some \<lparr>page_id = 1, widget_list = [html_widget, result_widget]\<rparr>"
    by (simp add: example_db_def)
  have "widgets_loop example_env example_db ''nope'' [html_widget, result_widget] [] =
      Inl (AttributeError ''language_code'')"
    by (simp add: gc dispatch_defs class_defs html_widget_def result_widget_def)
  with page have "WidgetViewSet_list example_env example_db ''nope'' (Some 1) =
      Inl (AttributeError ''language_code'')"
    by (simp add: WidgetViewSet_list_def)
  with none rank gc show ?thesis by blast
qed



text \<open>
  Claim C10: the Choosable list endpoint answers 412 when the \<open>lang\<close> parameter is
  not an allowed language code; otherwise every serialized description is the
  translation for the language code \<open>en\<close>, whatever allowed \<open>lang\<close> the request
  carries, so all allowed values of \<open>lang\<close> get the same response.
\<close>

theorem choosable_list_description_is_english:
  "(lang \<notin> set (map Some (LANGUAGE_CODES env)) \<longrightarrow>
      ChoosableViewSet_list env db lang = Response 412 None) \<and>
   (lang \<in> set (map Some (LANGUAGE_CODES env)) \<longrightarrow>
      (\<exists>ds. ChoosableViewSet_list env db lang = Response 200 (Some ds) \<and>
            map data_description ds =
              map (\<lambda>c. translate env c ''description'' ''en'') (Choosable_objects db))) \<and>
   (lang \<in> set (map Some (LANGUAGE_CODES env)) \<and>
    lang' \<in> set (map Some (LANGUAGE_CODES env)) \<longrightarrow>
      ChoosableViewSet_list env db lang = ChoosableViewSet_list env db lang')"
  by (simp add: ChoosableViewSet_list_def ChoosableSerializer_def get_description_def comp_def)

theorem choosable_list_description_is_english_witness:
  "Some ''de'' \<in> set (map Some (LANGUAGE_CODES example_env)) \<and>
   translate example_env choosable_1 ''description'' ''de'' \<noteq>
     translate example_env choosable_1 ''description'' ''en'' \<and>
   map_option (map data_description)
     (response_data (ChoosableViewSet_list example_env example_db (Some ''de''))) =
     Some [''description/en/C1'', ''description/en/C2''] \<and>
   ChoosableViewSet_list example_env example_db (Some ''de'') =
     ChoosableViewSet_list example_env example_db (Some ''en'') \<and>
   ChoosableViewSet_list example_env example_db (Some ''fr'') = Response 412 None \<and>
   ChoosableViewSet_list example_env example_db None = Response 412 None"
  using choosable_list_description_is_english
    [of "Some ''de''" example_env example_db "Some ''en''"]
    choosable_list_description_is_english [of "Some ''fr''" example_env example_db None]
    choosable_list_description_is_english [of None example_env example_db None]
  by (simp add: example_defs ChoosableViewSet_list_def)

section \<open>Further properties of the result list\<close>

lemma ranking_loop_dom:
  "ranking_loop env db sels cs r0 = Inr r \<Longrightarrow> dom r = dom r0 \<union> pk ` set cs"
proof (induction cs arbitrary: r0)
  case Nil
  then show ?case by simp
next
  case (Cons c cs)
  from Cons.prems obtain sc v where "score_vector env db sels c = Inr sc"
    and "get_score env sc = Inr v"
    and rest: "ranking_loop env db sels cs (r0(pk c \<mapsto> v)) = Inr r"
    by (auto split: sum.splits)
  from Cons.IH [OF rest] show ?case by auto
qed

lemma serialize_many_map:
  assumes "\<And>x y. f x = Inr y \<Longrightarrow> g y = h x"
  shows "serialize_many f xs = Inr ys \<Longrightarrow> map g ys = map h xs"
proof (induction xs arbitrary: ys)
  case Nil
  then show ?case by simp
next
  case (Cons x xs)
  from Cons.prems obtain y ys' where y: "f x = Inr y" and r: "serialize_many f xs = Inr ys'"
    and ys: "ys = y # ys'"
    by (auto split: sum.splits)
  from Cons.IH [OF r] assms [OF y] ys show ?case by simp
qed

lemma compute_ranking_dom:
  "compute_ranking env db session_pk = Inr r \<Longrightarrow> dom r = pk ` set (Choosable_objects db)"
  using ranking_loop_dom [of env db _ "Choosable_objects db" Map.empty r]
  by (simp add: compute_ranking_def)

text \<open>
  When the ranking computation returns, its dict has an entry for exactly the primary
  keys of the catalog: inside \<open>get_choosables\<close> every choosable is ranked.
\<close>

theorem ranking_covers_catalog:
  assumes "compute_ranking env db session_pk = Inr r"
  shows "dom r = pk ` set (Choosable_objects db)"
  by (rule compute_ranking_dom [OF assms])

theorem ranking_covers_catalog_witness:
  "(\<exists>r. compute_ranking example_env example_db ''abc'' = Inr r \<and> dom r = {1, 2} \<and>
        r 1 = Some 2 \<and> r 2 = Some 2)"
proof -
  have "\<exists>r. compute_ranking example_env example_db ''abc'' = Inr r \<and>
      r 1 = Some 2 \<and> r 2 = Some 2"
    by (simp add: compute_ranking_def scoring_defs example_defs)
  then obtain r where r: "compute_ranking example_env example_db ''abc'' = Inr r"
    and v: "r 1 = Some 2" "r 2 = Some 2" by blast
  from ranking_covers_catalog [OF r] have "dom r = {1, 2}"
    by (simp add: example_defs)
  with r v show ?thesis by blast
qed

text \<open>
  When \<open>get_choosables\<close> returns, it lists the choosables of the catalog in catalog
  order, one record each, and the rank of each record is the entry of the ranking
  for that choosable.
\<close>

theorem get_choosables_lists_catalog:
  assumes "get_choosables env db session_pk = Inr ds"
  shows "map data_id ds = map pk (Choosable_objects db) \<and>
         (\<exists>r. compute_ranking env db session_pk = Inr r \<and>
              map data_rank ds = map (\<lambda>c. the (r (pk c))) (Choosable_objects db))"
proof -
  from assms obtain r where r: "compute_ranking env db session_pk = Inr r"
    and ser: "serialize_many (RankedChoosableSerializer env db session_pk r)
        (Choosable_objects db) = Inr ds"
    by (auto simp: get_choosables_def split: sum.splits)
  have ids: "map data_id ds = map pk (Choosable_objects db)"
    by (rule serialize_many_map [OF _ ser])
      (auto simp: RankedChoosableSerializer_def split: sum.splits)
  have "map data_rank ds = map (get_rank r) (Choosable_objects db)"
    by (rule serialize_many_map [OF _ ser])
      (auto simp: RankedChoosableSerializer_def split: sum.splits)
  moreover have "map (get_rank r) (Choosable_objects db) =
      map (\<lambda>c. the (r (pk c))) (Choosable_objects db)"
    using compute_ranking_dom [OF r] by (auto simp: get_rank_def)
  ultimately show ?thesis using ids r by simp
qed

theorem get_choosables_lists_catalog_witness:
  "map_sum id (map data_id) (get_choosables example_env example_db ''abc'') = Inr [1, 2] \<and>
   map_sum id (map data_rank) (get_choosables example_env example_db ''abc'') = Inr [2, 2] \<and>
   map_sum id (map data_description) (get_choosables example_env example_db ''abc'') =
     Inr [''description/de/C1'', ''description/de/C2'']"
proof -
  let ?ds = "[\<lparr>data_id = 1, data_name = ''C1'', data_description = ''description/de/C1'',
               data_bg_color = ''#000'', data_fg_color = ''#fff'', data_meta = [],
               data_rank = 2\<rparr>,
             \<lparr>data_id = 2, data_name = ''C2'', data_description = ''description/de/C2'',
               data_bg_color = ''#000'', data_fg_color = ''#fff'',
               data_meta = [(''age'', ''5'')], data_rank = 2\<rparr>]"
  have ds: "get_choosables example_env example_db ''abc'' = Inr ?ds"
    by (simp add: get_choosables_def compute_ranking_def scoring_defs example_defs
        RankedChoosableSerializer_def ranked_get_description_def get_rank_def get_meta_def)
  from get_choosables_lists_catalog [OF ds] have "map data_id ?ds = [1, 2]"
    by (simp add: example_defs)
  with ds show ?thesis by simp
qed

end
